theory Spec2Isabelle
  imports Complex_Main
begin

section \<open>JavaScript values reaching the CDK app\<close>

text \<open>
  \<^verbatim>\<open>app.node.tryGetContext(key)\<close> is typed \<^verbatim>\<open>any\<close>: a context value comes from
  \<^verbatim>\<open>-c key=value\<close> on the command line (a string, possibly empty) or from the JSON of
  \<^verbatim>\<open>cdk.json\<close> (null, boolean, number, string, array, object), and a key that was never
  set reads as \<^verbatim>\<open>undefined\<close>.
\<close>

datatype jsval =
    JUndefined
  | JNull
  | JBool bool
  | JNum rat
  | JStr string
  | JArr "jsval list"
  | JObj "(string \<times> jsval) list"

text \<open>The operand test of \<^verbatim>\<open>!x\<close> and \<^verbatim>\<open>if (x)\<close>: JavaScript's ToBoolean.\<close>

fun truthy :: "jsval \<Rightarrow> bool" where
  "truthy JUndefined = False"
| "truthy JNull = False"
| "truthy (JBool b) = b"
| "truthy (JNum n) = (n \<noteq> 0)"
| "truthy (JStr s) = (s \<noteq> [])"
| "truthy (JArr xs) = True"
| "truthy (JObj kvs) = True"

text \<open>\<^verbatim>\<open>a ?? b\<close>: the right operand only when the left one is null or undefined.\<close>

fun nullish :: "jsval \<Rightarrow> jsval \<Rightarrow> jsval" where
  "nullish JUndefined b = b"
| "nullish JNull b = b"
| "nullish a b = a"

type_synonym cdk_context = "string \<rightharpoonup> jsval"

definition tryGetContext :: "cdk_context \<Rightarrow> string \<Rightarrow> jsval" where
  "tryGetContext ctx key = (case ctx key of None \<Rightarrow> JUndefined | Some v \<Rightarrow> v)"

text \<open>\<^verbatim>\<open>process.env.NAME\<close>: a string, or undefined when the variable is not set.\<close>

type_synonym process_env = "string \<rightharpoonup> string"

definition getenv :: "process_env \<Rightarrow> string \<Rightarrow> jsval" where
  "getenv penv name = (case penv name of None \<Rightarrow> JUndefined | Some s \<Rightarrow> JStr s)"


section \<open>The synthesized stack (lib/chat-agent-stack.ts)\<close>

record ChatAgentStackProps =
  env_account :: jsval
  env_region :: jsval
  githubRepo :: jsval
  githubBranch :: jsval

text \<open>
  A Lambda environment entry is either a value handed over from the props or a
  deploy-time token of another construct (\<^verbatim>\<open>dataBucket.bucketName\<close>,
  \<^verbatim>\<open>agent.agentId\<close>, \<^verbatim>\<open>alias.aliasId\<close>), named by the construct's id.
\<close>

datatype env_value =
    Value jsval
  | BucketName string
  | AgentId string
  | AliasId string

record s3_bucket =
  bucket_id :: string
  autoDeleteObjects :: bool

record lambda_function =
  fn_id :: string
  handler :: string
  code_asset :: string
  timeout_minutes :: nat
  memory_size :: nat
  ephemeral_gib :: "nat option"
  environment :: "(string \<times> env_value) list"

text \<open>The two grant methods of \<^verbatim>\<open>s3.Bucket\<close> called while the stack is built.\<close>

datatype access = GrantRead | GrantReadWrite

record grant =
  bucket :: string
  grantee :: string
  access :: access

text \<open>
  An IAM policy statement with effect Allow: who, which action patterns, on which
  resources. A principal is named by the construct that owns the role (a Lambda's id, a
  custom resource's type) or is a service principal; a resource is a bucket's id, another
  construct's ARN, or \<^verbatim>\<open>*\<close>.
\<close>

record policy_statement =
  st_principal :: string
  st_actions :: "string list"
  st_resources :: "string list"

record schedule_rule =
  rule_id :: string
  cron_minute :: string
  cron_hour :: string
  cron_weekDay :: string
  rule_targets :: "string list"

datatype parameter_type = STRING | NUMBER | INTEGER | BOOLEAN | ARRAY

record parameter =
  param_name :: string
  param_type :: parameter_type
  required :: bool

record agent_function =
  fn_name :: string
  parameters :: "parameter list"

record action_group =
  group_name :: string
  enabled :: bool
  executor :: "string option"
  group_functions :: "agent_function list"

record stack =
  stack_id :: string
  stack_account :: jsval
  stack_region :: jsval
  buckets :: "s3_bucket list"
  lambdas :: "lambda_function list"
  execution_roles :: "string list"
  grants :: "grant list"
  role_policies :: "policy_statement list"
  bucket_policies :: "policy_statement list"
  rules :: "schedule_rule list"
  action_groups :: "action_group list"

text \<open>The function schema of the \<^verbatim>\<open>DataTools\<close> action group, entry by entry.\<close>

definition DataTools_functions :: "agent_function list" where
  "DataTools_functions =
    [\<lparr>fn_name = ''query_data'',
      parameters = [\<lparr>param_name = ''sql'', param_type = STRING, required = True\<rparr>]\<rparr>,
     \<lparr>fn_name = ''list_tables'', parameters = []\<rparr>,
     \<lparr>fn_name = ''describe_table'',
      parameters = [\<lparr>param_name = ''table_name'', param_type = STRING, required = True\<rparr>]\<rparr>,
     \<lparr>fn_name = ''list_repo_files'',
      parameters = [\<lparr>param_name = ''path_prefix'', param_type = STRING, required = False\<rparr>]\<rparr>,
     \<lparr>fn_name = ''read_repo_file'',
      parameters = [\<lparr>param_name = ''file_path'', param_type = STRING, required = True\<rparr>]\<rparr>]"

text \<open>
  The roles that the library constructs create on their own: the provider of the
  \<^verbatim>\<open>autoDeleteObjects\<close> custom resource (one per stack, shared by both buckets) and the
  handler of \<^verbatim>\<open>BucketDeployment\<close>; and the service principal of the distribution's
  origin access control.
\<close>

definition auto_delete_provider :: string where
  "auto_delete_provider = ''Custom::S3AutoDeleteObjectsCustomResourceProvider''"

definition deployment_handler :: string where
  "deployment_handler = ''Custom::CDKBucketDeployment''"

definition cloudfront_service :: string where
  "cloudfront_service = ''cloudfront.amazonaws.com''"

text \<open>
  The bucket policy statement that \<^verbatim>\<open>autoDeleteObjects: true\<close> adds to a bucket for the
  provider's role (aws-cdk-lib, \<^verbatim>\<open>Bucket.enableAutoDeleteObjects\<close>).
\<close>

definition auto_delete_statement :: "string \<Rightarrow> policy_statement" where
  "auto_delete_statement b =
    \<lparr>st_principal = auto_delete_provider,
     st_actions = [''s3:PutBucketPolicy'', ''s3:GetBucket*'', ''s3:List*'', ''s3:DeleteObject*''],
     st_resources = [b]\<rparr>"

text \<open>
  What the constructor of \<^verbatim>\<open>ChatAgentStack\<close> has built when it returns (the failure
  of a statement is in \<open>ChatAgentStack\<close> below). Its statements
  add constructs to the stack one after the other; the record lists what each kind of
  construct ends up holding, in the order of the source, together with what the library
  constructs add by themselves:
  \<^item> \<^verbatim>\<open>new bedrock.Agent\<close> adds its two built-in action groups (user input, enabled by
    \<^verbatim>\<open>userInputEnabled: true\<close>, and the code interpreter, disabled) before
    \<^verbatim>\<open>addActionGroup(dataTools)\<close> adds the third;
  \<^item> \<^verbatim>\<open>autoDeleteObjects: true\<close> adds a bucket policy statement for the provider's role to
    each of the two buckets;
  \<^item> \<^verbatim>\<open>S3BucketOrigin.withOriginAccessControl(webBucket)\<close> lets the distribution read the
    web bucket;
  \<^item> \<^verbatim>\<open>new s3deploy.BucketDeployment\<close> calls \<^verbatim>\<open>grantReadWrite\<close> on its destination, the
    web bucket, and \<^verbatim>\<open>grantRead\<close> on the bucket of its source asset (the bootstrap
    bucket, outside the stack) for its handler, and lets the handler invalidate the
    distribution;
  \<^item> every Lambda role, those of the two custom resource handlers included, carries the
    managed policy AWSLambdaBasicExecutionRole.
  Permissions on things that are no bucket and no wildcard (who may invoke a Lambda, the
  agent's role on the model) cannot reach a bucket; of these only the statement written
  in the source, \<^verbatim>\<open>chatApiFn.addToRolePolicy\<close>, is listed. Descriptions and outputs are
  left out.
\<close>

definition ChatAgentStack_constructs :: "string \<Rightarrow> ChatAgentStackProps \<Rightarrow> stack" where
  "ChatAgentStack_constructs sid props =
    (let branch = nullish (githubBranch props) (JStr ''main'') in
     \<lparr>stack_id = sid,
      stack_account = env_account props,
      stack_region = env_region props,
      buckets =
        [\<lparr>bucket_id = ''DataBucket'', autoDeleteObjects = True\<rparr>,
         \<lparr>bucket_id = ''WebBucket'', autoDeleteObjects = True\<rparr>],
      lambdas =
        [\<lparr>fn_id = ''SyncFunction'', handler = ''index.handler'', code_asset = ''lambda/sync'',
          timeout_minutes = 10, memory_size = 1024, ephemeral_gib = Some 2,
          environment =
            [(''GITHUB_REPO'', Value (githubRepo props)),
             (''GITHUB_BRANCH'', Value branch),
             (''S3_BUCKET'', BucketName ''DataBucket'')]\<rparr>,
         \<lparr>fn_id = ''QueryFunction'', handler = ''index.handler'', code_asset = ''lambda/query'',
          timeout_minutes = 2, memory_size = 1024, ephemeral_gib = Some 2,
          environment = [(''S3_BUCKET'', BucketName ''DataBucket'')]\<rparr>,
         \<lparr>fn_id = ''ChatApiFunction'', handler = ''index.handler'',
          code_asset = ''lambda/chat-api'',
          timeout_minutes = 5, memory_size = 256, ephemeral_gib = None,
          environment =
            [(''AGENT_ID'', AgentId ''ChatAgent''),
             (''AGENT_ALIAS_ID'', AliasId ''ChatAgentAlias'')]\<rparr>],
      execution_roles =
        [auto_delete_provider, ''SyncFunction'', ''QueryFunction'', ''ChatApiFunction'',
         deployment_handler],
      grants =
        [\<lparr>bucket = ''DataBucket'', grantee = ''SyncFunction'', access = GrantReadWrite\<rparr>,
         \<lparr>bucket = ''DataBucket'', grantee = ''QueryFunction'', access = GrantRead\<rparr>,
         \<lparr>bucket = ''cdk-assets'', grantee = deployment_handler, access = GrantRead\<rparr>,
         \<lparr>bucket = ''WebBucket'', grantee = deployment_handler, access = GrantReadWrite\<rparr>],
      role_policies =
        [\<lparr>st_principal = ''ChatApiFunction'', st_actions = [''bedrock:InvokeAgent''],
          st_resources = [''agent/ChatAgent'', ''agent-alias/ChatAgent/ChatAgentAlias'']\<rparr>,
         \<lparr>st_principal = deployment_handler,
          st_actions = [''cloudfront:GetInvalidation'', ''cloudfront:CreateInvalidation''],
          st_resources = [''*'']\<rparr>],
      bucket_policies =
        [auto_delete_statement ''DataBucket'',
         auto_delete_statement ''WebBucket'',
         \<lparr>st_principal = cloudfront_service, st_actions = [''s3:GetObject''],
          st_resources = [''WebBucket'']\<rparr>],
      rules =
        [\<lparr>rule_id = ''WeeklySyncRule'', cron_minute = ''0'', cron_hour = ''2'',
          cron_weekDay = ''SUN'', rule_targets = [''SyncFunction'']\<rparr>],
      action_groups =
        [\<lparr>group_name = ''UserInputAction'', enabled = True, executor = None,
          group_functions = []\<rparr>,
         \<lparr>group_name = ''CodeInterpreterAction'', enabled = False, executor = None,
          group_functions = []\<rparr>,
         \<lparr>group_name = ''DataTools'', enabled = True, executor = Some ''QueryFunction'',
          group_functions = DataTools_functions\<rparr>]\<rparr>)"

text \<open>
  The statements of the constructor, in the order of the source. Each of them calls into
  aws-cdk-lib, the Bedrock construct library or Node, and each such call can throw: the
  stack's environment is rejected, an asset directory or \<^verbatim>\<open>web/index.html\<close> is missing,
  bundling fails, a construct refuses its properties.
\<close>

datatype step =
    NewApp
  | Super
  | NewDataBucket
  | PythonBundling
  | NewSyncFunction
  | GrantReadWriteSync
  | NewWeeklySyncRule
  | NewQueryFunction
  | GrantReadQuery
  | InferenceProfileFromConfig
  | NewChatAgent
  | NewDataTools
  | AddActionGroup
  | NewChatAgentAlias
  | NewChatApiFunction
  | AddToRolePolicy
  | NewChatApi
  | AddRoutes
  | NewWebBucket
  | OriginWithAccessControl
  | NewWebDistribution
  | ReadHtmlTemplate
  | NewWebDeployment
  | NewCfnOutput string

definition constructor_steps :: "step list" where
  "constructor_steps =
    [Super, NewDataBucket, PythonBundling, NewSyncFunction, GrantReadWriteSync,
     NewWeeklySyncRule, NewQueryFunction, GrantReadQuery, InferenceProfileFromConfig,
     NewChatAgent, NewDataTools, AddActionGroup, NewChatAgentAlias, NewChatApiFunction,
     AddToRolePolicy, NewChatApi, AddRoutes, NewWebBucket, OriginWithAccessControl,
     NewWebDistribution, ReadHtmlTemplate, NewWebDeployment,
     NewCfnOutput ''AgentId'', NewCfnOutput ''AgentAliasId'', NewCfnOutput ''DataBucketName'',
     NewCfnOutput ''SyncFunctionName'', NewCfnOutput ''ChatApiUrl'', NewCfnOutput ''WebUiUrl'']"

text \<open>
  The libraries and the host (file system, bundling, the values of the stack's
  environment) are not part of the repository: what they do to a step is a parameter, the
  message of the error the step throws there, or None when it returns.
\<close>

type_synonym host = "step \<Rightarrow> string option"

datatype app_error =
    MissingContext string
  | Threw step string

text \<open>Running steps in order stops at the first one that throws.\<close>

fun first_throw :: "host \<Rightarrow> step list \<Rightarrow> (step \<times> string) option" where
  "first_throw h [] = None"
| "first_throw h (st # sts) =
     (case h st of Some e \<Rightarrow> Some (st, e) | None \<Rightarrow> first_throw h sts)"

text \<open>
  \<^verbatim>\<open>new ChatAgentStack(scope, id, props)\<close>: the stack, or the error of the first statement
  of the constructor that throws; then the caller gets no stack.
\<close>

definition ChatAgentStack :: "host \<Rightarrow> string \<Rightarrow> ChatAgentStackProps \<Rightarrow> app_error + stack" where
  "ChatAgentStack h sid props =
    (case first_throw h constructor_steps of
       Some (st, e) \<Rightarrow> Inl (Threw st e)
     | None \<Rightarrow> Inr (ChatAgentStack_constructs sid props))"

text \<open>The value a Lambda of the stack finds under an environment name.\<close>

definition fn_env :: "stack \<Rightarrow> string \<Rightarrow> string \<Rightarrow> env_value option" where
  "fn_env s f name =
    (case filter (\<lambda>l. fn_id l = f) (lambdas s) of
       [] \<Rightarrow> None
     | l # _ \<Rightarrow> map_of (environment l) name)"


section \<open>The permission boundary of the data bucket\<close>

text \<open>
  What the two grant methods put into the grantee's role policy for the bucket
  (aws-cdk-lib, \<^verbatim>\<open>aws-s3/lib/perms\<close>; version 2 always grants the put actions without
  the ACL ones).
\<close>

fun grant_actions :: "access \<Rightarrow> string list" where
  "grant_actions GrantRead = [''s3:GetObject*'', ''s3:GetBucket*'', ''s3:List*'']"
| "grant_actions GrantReadWrite =
     [''s3:GetObject*'', ''s3:GetBucket*'', ''s3:List*'', ''s3:DeleteObject*'',
      ''s3:PutObject'', ''s3:PutObjectLegalHold'', ''s3:PutObjectRetention'',
      ''s3:PutObjectTagging'', ''s3:PutObjectVersionTagging'', ''s3:Abort*'']"

definition grant_statement :: "grant \<Rightarrow> policy_statement" where
  "grant_statement g =
    \<lparr>st_principal = grantee g, st_actions = grant_actions (access g),
     st_resources = [bucket g]\<rparr>"

text \<open>The managed policy AWSLambdaBasicExecutionRole: writing logs, on any resource.\<close>

definition basic_execution_statement :: "string \<Rightarrow> policy_statement" where
  "basic_execution_statement r =
    \<lparr>st_principal = r,
     st_actions = [''logs:CreateLogGroup'', ''logs:CreateLogStream'', ''logs:PutLogEvents''],
     st_resources = [''*'']\<rparr>"

text \<open>
  The Allow statements of the stack: from the grants, from the role policies, from the
  managed policy of the Lambda roles, and from the bucket policies. They include every
  statement of the synthesized stack that names a bucket or a wildcard resource. The
  stack has no Deny statement.
\<close>

definition statements :: "stack \<Rightarrow> policy_statement list" where
  "statements s =
    map grant_statement (grants s) @ role_policies s
    @ map basic_execution_statement (execution_roles s) @ bucket_policies s"

definition principals :: "stack \<Rightarrow> string list" where
  "principals s = remdups (map st_principal (statements s))"

text \<open>
  IAM's pattern match: \<^verbatim>\<open>*\<close> stands for any run of characters, \<^verbatim>\<open>?\<close> for one. Action
  names are compared as CDK and the service write them.
\<close>

fun glob :: "string \<Rightarrow> string \<Rightarrow> bool" where
  "glob [] [] = True"
| "glob [] (y # ys) = False"
| "glob (p # ps) [] = (p = CHR ''*'' \<and> glob ps [])"
| "glob (p # ps) (y # ys) =
     (if p = CHR ''*'' then glob ps (y # ys) \<or> glob (p # ps) ys
      else (p = CHR ''?'' \<or> p = y) \<and> glob ps ys)"

text \<open>
  A principal may perform an action on a bucket when some statement of the stack, in the
  principal's role policies or in a bucket policy, allows the action on that bucket or on
  every resource.
\<close>

definition allowed :: "stack \<Rightarrow> string \<Rightarrow> string \<Rightarrow> string \<Rightarrow> bool" where
  "allowed s p b a =
    list_ex (\<lambda>st. st_principal st = p
                \<and> list_ex (\<lambda>r. r = b \<or> r = ''*'') (st_resources st)
                \<and> list_ex (\<lambda>pat. glob pat a) (st_actions st))
      (statements s)"

text \<open>
  The bucket's content: object keys with their bodies (the synced repository files and
  the index file). A request names the action it needs; a denied request changes nothing.
\<close>

type_synonym objects = "(string \<times> string) list"

datatype s3_request =
    GetObject string
  | ListObjects string
  | PutObject string string
  | DeleteObject string

datatype s3_response =
    Body string
  | Keys "string list"
  | Done
  | NoSuchKey
  | AccessDenied

fun request_action :: "s3_request \<Rightarrow> string" where
  "request_action (GetObject k) = ''s3:GetObject''"
| "request_action (ListObjects p) = ''s3:ListBucket''"
| "request_action (PutObject k v) = ''s3:PutObject''"
| "request_action (DeleteObject k) = ''s3:DeleteObject''"

fun is_prefix :: "string \<Rightarrow> string \<Rightarrow> bool" where
  "is_prefix [] ys = True"
| "is_prefix (x # xs) [] = False"
| "is_prefix (x # xs) (y # ys) = (x = y \<and> is_prefix xs ys)"

fun perform :: "s3_request \<Rightarrow> objects \<Rightarrow> s3_response \<times> objects" where
  "perform (GetObject k) objs =
     (case map_of objs k of None \<Rightarrow> (NoSuchKey, objs) | Some v \<Rightarrow> (Body v, objs))"
| "perform (ListObjects p) objs = (Keys (filter (is_prefix p) (map fst objs)), objs)"
| "perform (PutObject k v) objs = (Done, (k, v) # filter (\<lambda>kv. fst kv \<noteq> k) objs)"
| "perform (DeleteObject k) objs = (Done, filter (\<lambda>kv. fst kv \<noteq> k) objs)"

definition s3_call ::
  "stack \<Rightarrow> string \<Rightarrow> string \<Rightarrow> s3_request \<Rightarrow> objects \<Rightarrow> s3_response \<times> objects" where
  "s3_call s f b req objs =
    (if allowed s f b (request_action req) then perform req objs else (AccessDenied, objs))"

text \<open>A handler's run against the bucket: its requests one after the other.\<close>

fun s3_calls ::
  "stack \<Rightarrow> string \<Rightarrow> string \<Rightarrow> s3_request list \<Rightarrow> objects \<Rightarrow> s3_response list \<times> objects" where
  "s3_calls s f b [] objs = ([], objs)"
| "s3_calls s f b (req # reqs) objs =
     (case s3_call s f b req objs of
        (r, objs') \<Rightarrow> (case s3_calls s f b reqs objs' of (rs, objs'') \<Rightarrow> (r # rs, objs'')))"


section \<open>The app entry point (bin/app.ts)\<close>

definition missing_context_message :: string where
  "missing_context_message =
    ''Missing required context: -c githubRepo=owner/repo  (e.g. -c githubRepo=awesome-org/data-repo)''"

text \<open>
  The outcome of running the entry point: the error it threw, if any, and the stacks
  whose construction was completed under the app.
\<close>

record app_outcome =
  thrown :: "app_error option"
  app_stacks :: "stack list"

text \<open>
  The entry point, statement by statement: \<^verbatim>\<open>new cdk.App()\<close>, which reads the context
  and can throw on it; the guard on \<^verbatim>\<open>githubRepo\<close>; \<^verbatim>\<open>new ChatAgentStack\<close>. An error
  nobody catches ends the process.
\<close>

definition app_main :: "host \<Rightarrow> cdk_context \<Rightarrow> process_env \<Rightarrow> app_outcome" where
  "app_main h ctx penv =
    (case h NewApp of
       Some e \<Rightarrow> \<lparr>thrown = Some (Threw NewApp e), app_stacks = []\<rparr>
     | None \<Rightarrow>
        (let repo = tryGetContext ctx ''githubRepo'' in
         if \<not> truthy repo
         then \<lparr>thrown = Some (MissingContext missing_context_message), app_stacks = []\<rparr>
         else
           (case ChatAgentStack h ''BedrockChatAgentStack''
                   \<lparr>env_account = getenv penv ''CDK_DEFAULT_ACCOUNT'',
                    env_region = getenv penv ''CDK_DEFAULT_REGION'',
                    githubRepo = repo,
                    githubBranch = nullish (tryGetContext ctx ''githubBranch'') (JStr ''main'')\<rparr> of
              Inl err \<Rightarrow> \<lparr>thrown = Some err, app_stacks = []\<rparr>
            | Inr s \<Rightarrow> \<lparr>thrown = None, app_stacks = [s]\<rparr>)))"


text \<open>
  Three hosts, for examples: one where every step returns; one where \<^verbatim>\<open>new cdk.App()\<close>
  throws (a malformed \<^verbatim>\<open>CDK_CONTEXT_JSON\<close>); one where the first
  \<^verbatim>\<open>new lambda.Function\<close> of the constructor throws (its asset directory is missing, or
  the stack's environment is unusable).
\<close>

definition all_return :: host where
  "all_return st = None"

definition app_throws :: host where
  "app_throws st = (if st = NewApp then Some ''Unexpected token in JSON'' else None)"

definition sync_function_throws :: host where
  "sync_function_throws st =
    (if st = NewSyncFunction then Some ''Cannot find asset at lambda/sync'' else None)"


section \<open>The Tool Dispatcher\<close>

text \<open>
  The \<^verbatim>\<open>DataTools\<close> action group sends every tool call of the agent to its executor,
  the Query Lambda, as a function name with named arguments.
\<close>

record tool_call =
  tool_name :: string
  arguments :: "(string \<times> jsval) list"

datatype operation =
    QueryData string
  | ListTables
  | DescribeTable string
  | ListRepoFiles "string option"
  | ReadRepoFile string

datatype tool_error = InvalidArgument | UnknownTool

text \<open>The tools the agent can name: the functions of the stack's action groups.\<close>

definition tool_schema :: "stack \<Rightarrow> agent_function list" where
  "tool_schema s = concat (map group_functions (action_groups s))"

text \<open>
  Modelled from the spec: the Tool Dispatcher, the handler of the Query Lambda
  (lambda/query/index.py), is not among the sources; only the schema it serves is. After
  the spec, 4.6 and 9: a call is checked against the per-tool schema (required and optional
  fields, types) before dispatch, a required field that is absent or a field of the wrong
  shape fails with InvalidArgument, and a valid call maps to exactly one operation. The
  spec does not say what a name outside the schema gets; it is UnknownTool here.
\<close>

fun shaped :: "parameter_type \<Rightarrow> jsval \<Rightarrow> bool" where
  "shaped STRING (JStr s) = True"
| "shaped NUMBER (JNum n) = True"
| "shaped INTEGER (JNum n) = (of_int \<lfloor>n\<rfloor> = n)"
| "shaped BOOLEAN (JBool b) = True"
| "shaped ARRAY (JArr xs) = True"
| "shaped t v = False"

text \<open>
  Modelled from the spec: the check of one declared parameter (the dispatcher is not among
  the sources). A field that is absent passes only if it is optional; a field that is
  given must have the declared type.
\<close>

definition valid_param :: "(string \<times> jsval) list \<Rightarrow> parameter \<Rightarrow> bool" where
  "valid_param args p =
    (case map_of args (param_name p) of
       None \<Rightarrow> \<not> required p
     | Some v \<Rightarrow> shaped (param_type p) v)"

text \<open>
  Modelled from the spec: reading a string argument of a call that passed the check (the
  dispatcher is not among the sources).
\<close>

definition string_arg :: "(string \<times> jsval) list \<Rightarrow> string \<Rightarrow> string option" where
  "string_arg args name = (case map_of args name of Some (JStr s) \<Rightarrow> Some s | _ \<Rightarrow> None)"

text \<open>
  Modelled from the spec: the one operation each tool of section 6 of the spec maps to
  (the dispatcher is not among the sources).
\<close>

definition operation_of :: "string \<Rightarrow> (string \<times> jsval) list \<Rightarrow> operation option" where
  "operation_of name args =
    (if name = ''query_data'' then map_option QueryData (string_arg args ''sql'')
     else if name = ''list_tables'' then Some ListTables
     else if name = ''describe_table'' then map_option DescribeTable (string_arg args ''table_name'')
     else if name = ''list_repo_files'' then Some (ListRepoFiles (string_arg args ''path_prefix''))
     else if name = ''read_repo_file'' then map_option ReadRepoFile (string_arg args ''file_path'')
     else None)"

text \<open>
  Modelled from the spec: the dispatcher itself (not among the sources). The schema entry
  of the named tool is looked up, the arguments are validated against it, and only then
  is the operation chosen.
\<close>

definition dispatch :: "stack \<Rightarrow> tool_call \<Rightarrow> tool_error + operation" where
  "dispatch s c =
    (case find (\<lambda>f. fn_name f = tool_name c) (tool_schema s) of
       None \<Rightarrow> Inl UnknownTool
     | Some f \<Rightarrow>
         if list_all (valid_param (arguments c)) (parameters f)
         then (case operation_of (tool_name c) (arguments c) of
                 None \<Rightarrow> Inl UnknownTool
               | Some opn \<Rightarrow> Inr opn)
         else Inl InvalidArgument)"


section \<open>Properties of the stack\<close>

lemma ChatAgentStack_returns_constructs:
  "ChatAgentStack h sid props = Inr s \<Longrightarrow> s = ChatAgentStack_constructs sid props"
  by (auto simp: ChatAgentStack_def split: option.splits)

lemma grants_constructs:
  "grants (ChatAgentStack_constructs sid props) =
     [\<lparr>bucket = ''DataBucket'', grantee = ''SyncFunction'', access = GrantReadWrite\<rparr>,
      \<lparr>bucket = ''DataBucket'', grantee = ''QueryFunction'', access = GrantRead\<rparr>,
      \<lparr>bucket = ''cdk-assets'', grantee = ''Custom::CDKBucketDeployment'', access = GrantRead\<rparr>,
      \<lparr>bucket = ''WebBucket'', grantee = ''Custom::CDKBucketDeployment'',
       access = GrantReadWrite\<rparr>]"
  by (simp add: ChatAgentStack_constructs_def Let_def deployment_handler_def)

lemma statements_constructs:
  "statements (ChatAgentStack_constructs sid props) =
     [\<lparr>st_principal = ''SyncFunction'', st_actions = grant_actions GrantReadWrite,
       st_resources = [''DataBucket'']\<rparr>,
      \<lparr>st_principal = ''QueryFunction'', st_actions = grant_actions GrantRead,
       st_resources = [''DataBucket'']\<rparr>,
      \<lparr>st_principal = ''Custom::CDKBucketDeployment'', st_actions = grant_actions GrantRead,
       st_resources = [''cdk-assets'']\<rparr>,
      \<lparr>st_principal = ''Custom::CDKBucketDeployment'', st_actions = grant_actions GrantReadWrite,
       st_resources = [''WebBucket'']\<rparr>,
      \<lparr>st_principal = ''ChatApiFunction'', st_actions = [''bedrock:InvokeAgent''],
       st_resources = [''agent/ChatAgent'', ''agent-alias/ChatAgent/ChatAgentAlias'']\<rparr>,
      \<lparr>st_principal = ''Custom::CDKBucketDeployment'',
       st_actions = [''cloudfront:GetInvalidation'', ''cloudfront:CreateInvalidation''],
       st_resources = [''*'']\<rparr>,
      basic_execution_statement ''Custom::S3AutoDeleteObjectsCustomResourceProvider'',
      basic_execution_statement ''SyncFunction'',
      basic_execution_statement ''QueryFunction'',
      basic_execution_statement ''ChatApiFunction'',
      basic_execution_statement ''Custom::CDKBucketDeployment'',
      \<lparr>st_principal = ''Custom::S3AutoDeleteObjectsCustomResourceProvider'',
       st_actions = [''s3:PutBucketPolicy'', ''s3:GetBucket*'', ''s3:List*'', ''s3:DeleteObject*''],
       st_resources = [''DataBucket'']\<rparr>,
      \<lparr>st_principal = ''Custom::S3AutoDeleteObjectsCustomResourceProvider'',
       st_actions = [''s3:PutBucketPolicy'', ''s3:GetBucket*'', ''s3:List*'', ''s3:DeleteObject*''],
       st_resources = [''WebBucket'']\<rparr>,
      \<lparr>st_principal = ''cloudfront.amazonaws.com'', st_actions = [''s3:GetObject''],
       st_resources = [''WebBucket'']\<rparr>]"
  by (simp add: statements_def ChatAgentStack_constructs_def Let_def grant_statement_def
      auto_delete_statement_def auto_delete_provider_def deployment_handler_def
      cloudfront_service_def)

lemma principals_constructs:
  "principals (ChatAgentStack_constructs sid props) =
     [''SyncFunction'', ''QueryFunction'', ''ChatApiFunction'', ''Custom::CDKBucketDeployment'',
      ''Custom::S3AutoDeleteObjectsCustomResourceProvider'', ''cloudfront.amazonaws.com'']"
  by (simp add: principals_def statements_constructs basic_execution_statement_def)

lemma query_allowed:
  "allowed (ChatAgentStack_constructs sid props) ''QueryFunction'' ''DataBucket'' a =
     list_ex (\<lambda>pat. glob pat a)
       [''s3:GetObject*'', ''s3:GetBucket*'', ''s3:List*'',
        ''logs:CreateLogGroup'', ''logs:CreateLogStream'', ''logs:PutLogEvents'']"
  by (simp add: allowed_def statements_constructs basic_execution_statement_def)

lemma query_may_not_write:
  "\<not> allowed (ChatAgentStack_constructs sid props) ''QueryFunction'' ''DataBucket'' ''s3:PutObject''"
  "\<not> allowed (ChatAgentStack_constructs sid props) ''QueryFunction'' ''DataBucket''
       ''s3:DeleteObject''"
  by (simp_all add: query_allowed)

lemma sync_may_put:
  "allowed (ChatAgentStack_constructs sid props) ''SyncFunction'' ''DataBucket'' ''s3:PutObject''"
  by (simp add: allowed_def statements_constructs)

lemma query_call_keeps_objects:
  "snd (s3_call (ChatAgentStack_constructs sid props) ''QueryFunction'' ''DataBucket'' req objs)
     = objs"
  by (cases req) (simp_all add: s3_call_def query_may_not_write split: option.splits)

lemma query_calls_keep_objects:
  "snd (s3_calls (ChatAgentStack_constructs sid props) ''QueryFunction'' ''DataBucket'' reqs objs)
     = objs"
proof (induction reqs arbitrary: objs)
  case Nil
  show ?case by simp
next
  case (Cons req reqs)
  obtain r objs' where step:
    "s3_call (ChatAgentStack_constructs sid props) ''QueryFunction'' ''DataBucket'' req objs
       = (r, objs')"
    by (cases "s3_call (ChatAgentStack_constructs sid props) ''QueryFunction'' ''DataBucket''
                 req objs")
  have same: "objs' = objs"
    using query_call_keeps_objects [of sid props req objs] step by simp
  obtain rs objs'' where rest:
    "s3_calls (ChatAgentStack_constructs sid props) ''QueryFunction'' ''DataBucket'' reqs objs'
       = (rs, objs'')"
    by (cases "s3_calls (ChatAgentStack_constructs sid props) ''QueryFunction'' ''DataBucket''
                 reqs objs'")
  have "objs'' = objs'"
    using Cons.IH [of objs'] rest by simp
  with same step rest show ?case by simp
qed

lemma may_put_data:
  "filter (\<lambda>p. allowed (ChatAgentStack_constructs sid props) p ''DataBucket'' ''s3:PutObject'')
     (principals (ChatAgentStack_constructs sid props)) = [''SyncFunction'']"
  by (simp add: principals_constructs allowed_def statements_constructs
      basic_execution_statement_def)

lemma may_get_and_put_data:
  "filter (\<lambda>p. allowed (ChatAgentStack_constructs sid props) p ''DataBucket'' ''s3:GetObject''
               \<and> allowed (ChatAgentStack_constructs sid props) p ''DataBucket'' ''s3:PutObject'')
     (principals (ChatAgentStack_constructs sid props)) = [''SyncFunction'']"
  by (simp add: principals_constructs allowed_def statements_constructs
      basic_execution_statement_def)

lemma may_delete_data:
  "filter (\<lambda>p. allowed (ChatAgentStack_constructs sid props) p ''DataBucket'' ''s3:DeleteObject'')
     (principals (ChatAgentStack_constructs sid props))
     = [''SyncFunction'', ''Custom::S3AutoDeleteObjectsCustomResourceProvider'']"
  by (simp add: principals_constructs allowed_def statements_constructs
      basic_execution_statement_def)

lemma tool_schema_constructs:
  "tool_schema (ChatAgentStack_constructs sid props) = DataTools_functions"
  by (simp add: tool_schema_def ChatAgentStack_constructs_def Let_def)

text \<open>
  C9. In the synthesized stack the only grant to the Query Lambda is read access to the
  data bucket, and the only read-write grant on the data bucket goes to the Sync Lambda.
  Over every Allow statement of the stack that can reach the bucket (role policies from
  grants and from \<^verbatim>\<open>addToRolePolicy\<close>, the managed policy of the Lambda roles, bucket
  policies), the Query Lambda's role may perform on the data bucket exactly the read
  actions of \<^verbatim>\<open>grantRead\<close> (and write its logs); the Sync Lambda's role is the only
  principal that may both get and put objects there, and the only one that may put; an
  object can be deleted by the Sync Lambda and by the provider of \<^verbatim>\<open>autoDeleteObjects\<close>,
  never by the Query Lambda. The Query Lambda is the executor of every action group that
  has one. So every run of requests the Query Lambda makes against the data bucket leaves
  its objects (repository files and index) as they were: a put or a delete is denied,
  while the Sync Lambda's put goes through.
\<close>

theorem query_path_never_mutates_data_bucket:
  "filter (\<lambda>g. grantee g = ''QueryFunction'') (grants (ChatAgentStack_constructs sid props)) =
     [\<lparr>bucket = ''DataBucket'', grantee = ''QueryFunction'', access = GrantRead\<rparr>]
   \<and> filter (\<lambda>g. bucket g = ''DataBucket'' \<and> access g = GrantReadWrite)
        (grants (ChatAgentStack_constructs sid props)) =
     [\<lparr>bucket = ''DataBucket'', grantee = ''SyncFunction'', access = GrantReadWrite\<rparr>]
   \<and> allowed (ChatAgentStack_constructs sid props) ''QueryFunction'' ''DataBucket'' a =
       list_ex (\<lambda>pat. glob pat a)
         [''s3:GetObject*'', ''s3:GetBucket*'', ''s3:List*'',
          ''logs:CreateLogGroup'', ''logs:CreateLogStream'', ''logs:PutLogEvents'']
   \<and> filter (\<lambda>p. allowed (ChatAgentStack_constructs sid props) p ''DataBucket'' ''s3:GetObject''
                 \<and> allowed (ChatAgentStack_constructs sid props) p ''DataBucket'' ''s3:PutObject'')
        (principals (ChatAgentStack_constructs sid props)) = [''SyncFunction'']
   \<and> filter (\<lambda>p. allowed (ChatAgentStack_constructs sid props) p ''DataBucket'' ''s3:PutObject'')
        (principals (ChatAgentStack_constructs sid props)) = [''SyncFunction'']
   \<and> filter (\<lambda>p. allowed (ChatAgentStack_constructs sid props) p ''DataBucket'' ''s3:DeleteObject'')
        (principals (ChatAgentStack_constructs sid props))
       = [''SyncFunction'', ''Custom::S3AutoDeleteObjectsCustomResourceProvider'']
   \<and> concat (map (\<lambda>g. case executor g of None \<Rightarrow> [] | Some f \<Rightarrow> [f])
        (action_groups (ChatAgentStack_constructs sid props))) = [''QueryFunction'']
   \<and> snd (s3_calls (ChatAgentStack_constructs sid props) ''QueryFunction'' ''DataBucket'' reqs objs)
       = objs
   \<and> s3_call (ChatAgentStack_constructs sid props) ''QueryFunction'' ''DataBucket''
        (PutObject k v) objs = (AccessDenied, objs)
   \<and> s3_call (ChatAgentStack_constructs sid props) ''QueryFunction'' ''DataBucket''
        (DeleteObject k) objs = (AccessDenied, objs)
   \<and> s3_call (ChatAgentStack_constructs sid props) ''SyncFunction'' ''DataBucket''
        (PutObject k v) objs = (Done, (k, v) # filter (\<lambda>kv. fst kv \<noteq> k) objs)"
proof (intro conjI)
  show "filter (\<lambda>g. grantee g = ''QueryFunction'') (grants (ChatAgentStack_constructs sid props)) =
     [\<lparr>bucket = ''DataBucket'', grantee = ''QueryFunction'', access = GrantRead\<rparr>]"
    by (simp add: grants_constructs)
  show "filter (\<lambda>g. bucket g = ''DataBucket'' \<and> access g = GrantReadWrite)
        (grants (ChatAgentStack_constructs sid props)) =
     [\<lparr>bucket = ''DataBucket'', grantee = ''SyncFunction'', access = GrantReadWrite\<rparr>]"
    by (simp add: grants_constructs)
  show "allowed (ChatAgentStack_constructs sid props) ''QueryFunction'' ''DataBucket'' a =
       list_ex (\<lambda>pat. glob pat a)
         [''s3:GetObject*'', ''s3:GetBucket*'', ''s3:List*'',
          ''logs:CreateLogGroup'', ''logs:CreateLogStream'', ''logs:PutLogEvents'']"
    by (rule query_allowed)
  show "filter (\<lambda>p. allowed (ChatAgentStack_constructs sid props) p ''DataBucket'' ''s3:GetObject''
                 \<and> allowed (ChatAgentStack_constructs sid props) p ''DataBucket'' ''s3:PutObject'')
        (principals (ChatAgentStack_constructs sid props)) = [''SyncFunction'']"
    by (rule may_get_and_put_data)
  show "filter (\<lambda>p. allowed (ChatAgentStack_constructs sid props) p ''DataBucket'' ''s3:PutObject'')
        (principals (ChatAgentStack_constructs sid props)) = [''SyncFunction'']"
    by (rule may_put_data)
  show "filter (\<lambda>p. allowed (ChatAgentStack_constructs sid props) p ''DataBucket'' ''s3:DeleteObject'')
        (principals (ChatAgentStack_constructs sid props))
       = [''SyncFunction'', ''Custom::S3AutoDeleteObjectsCustomResourceProvider'']"
    by (rule may_delete_data)
  show "concat (map (\<lambda>g. case executor g of None \<Rightarrow> [] | Some f \<Rightarrow> [f])
        (action_groups (ChatAgentStack_constructs sid props))) = [''QueryFunction'']"
    by (simp add: ChatAgentStack_constructs_def Let_def)
  show "snd (s3_calls (ChatAgentStack_constructs sid props) ''QueryFunction'' ''DataBucket'' reqs objs)
       = objs"
    by (rule query_calls_keep_objects)
  show "s3_call (ChatAgentStack_constructs sid props) ''QueryFunction'' ''DataBucket''
        (PutObject k v) objs = (AccessDenied, objs)"
    by (simp add: s3_call_def query_may_not_write)
  show "s3_call (ChatAgentStack_constructs sid props) ''QueryFunction'' ''DataBucket''
        (DeleteObject k) objs = (AccessDenied, objs)"
    by (simp add: s3_call_def query_may_not_write)
  show "s3_call (ChatAgentStack_constructs sid props) ''SyncFunction'' ''DataBucket''
        (PutObject k v) objs = (Done, (k, v) # filter (\<lambda>kv. fst kv \<noteq> k) objs)"
    by (simp add: s3_call_def sync_may_put)
qed


section \<open>Properties of the app entry point\<close>

lemma sync_env_constructs:
  "fn_env (ChatAgentStack_constructs sid props) ''SyncFunction'' ''GITHUB_REPO''
     = Some (Value (githubRepo props))"
  "fn_env (ChatAgentStack_constructs sid props) ''SyncFunction'' ''GITHUB_BRANCH''
     = Some (Value (nullish (githubBranch props) (JStr ''main'')))"
  "stack_id (ChatAgentStack_constructs sid props) = sid"
  by (simp_all add: fn_env_def ChatAgentStack_constructs_def Let_def)

lemma nullish_twice:
  "nullish (nullish b (JStr ''main'')) (JStr ''main'') = nullish b (JStr ''main'')"
  by (cases b) simp_all

text \<open>
  C10, as the claim states it, fails: a githubRepo context value that is present but
  empty (\<^verbatim>\<open>-c githubRepo=\<close>) is rejected by the guard \<^verbatim>\<open>if (!githubRepo)\<close> like an
  absent one, and no stack is constructed, on a host where no step throws.
\<close>

theorem present_empty_githubRepo_throws:
  "[''githubRepo'' \<mapsto> JStr ''''] ''githubRepo'' = Some (JStr '''')
   \<and> app_main all_return [''githubRepo'' \<mapsto> JStr ''''] Map.empty
       = \<lparr>thrown = Some (MissingContext missing_context_message), app_stacks = []\<rparr>"
  by (simp add: app_main_def tryGetContext_def all_return_def)

text \<open>
  C10, amended. Whenever \<^verbatim>\<open>new cdk.App()\<close> returns: if the githubRepo context value is
  absent, or present but falsy (null, the empty string, 0, false), the app throws the
  missing-context error and no stack has been constructed. If it is truthy, the
  constructor of the stack is run; when none of its statements throws, nothing is thrown
  and exactly one stack, BedrockChatAgentStack, is constructed, whose Sync Lambda gets
  that value as GITHUB_REPO and as GITHUB_BRANCH the githubBranch context value, or
  "main" when that is absent (or null); when one of its statements throws, the app ends
  with the error of the first such statement and with no stack. When \<^verbatim>\<open>new cdk.App()\<close>
  itself throws, the app ends with that error and no stack. A falsy githubRepo never
  leads to a stack.
\<close>

theorem app_githubRepo_guard:
  "(h NewApp = Some e0 \<longrightarrow>
      app_main h ctx penv = \<lparr>thrown = Some (Threw NewApp e0), app_stacks = []\<rparr>)
   \<and> (\<not> truthy (tryGetContext ctx ''githubRepo'') \<longrightarrow>
      thrown (app_main h ctx penv) \<noteq> None \<and> app_stacks (app_main h ctx penv) = [])
   \<and> (h NewApp = None \<and> ctx ''githubRepo'' = None \<longrightarrow>
      app_main h ctx penv
        = \<lparr>thrown = Some (MissingContext missing_context_message), app_stacks = []\<rparr>)
   \<and> (h NewApp = None \<and> \<not> truthy (tryGetContext ctx ''githubRepo'') \<longrightarrow>
      app_main h ctx penv
        = \<lparr>thrown = Some (MissingContext missing_context_message), app_stacks = []\<rparr>)
   \<and> (h NewApp = None \<and> truthy (tryGetContext ctx ''githubRepo'')
        \<and> first_throw h constructor_steps = Some (st, e) \<longrightarrow>
      app_main h ctx penv = \<lparr>thrown = Some (Threw st e), app_stacks = []\<rparr>)
   \<and> (h NewApp = None \<and> truthy (tryGetContext ctx ''githubRepo'')
        \<and> first_throw h constructor_steps = None \<longrightarrow>
      thrown (app_main h ctx penv) = None
      \<and> map stack_id (app_stacks (app_main h ctx penv)) = [''BedrockChatAgentStack'']
      \<and> map (\<lambda>s. fn_env s ''SyncFunction'' ''GITHUB_REPO'') (app_stacks (app_main h ctx penv))
          = [Some (Value (tryGetContext ctx ''githubRepo''))]
      \<and> map (\<lambda>s. fn_env s ''SyncFunction'' ''GITHUB_BRANCH'') (app_stacks (app_main h ctx penv))
          = [Some (Value (nullish (tryGetContext ctx ''githubBranch'') (JStr ''main'')))])
   \<and> (h NewApp = None \<and> truthy (tryGetContext ctx ''githubRepo'')
        \<and> first_throw h constructor_steps = None \<and> ctx ''githubBranch'' = None \<longrightarrow>
      map (\<lambda>s. fn_env s ''SyncFunction'' ''GITHUB_BRANCH'') (app_stacks (app_main h ctx penv))
          = [Some (Value (JStr ''main''))])"
proof (intro conjI impI)
  assume "h NewApp = Some e0"
  then show "app_main h ctx penv = \<lparr>thrown = Some (Threw NewApp e0), app_stacks = []\<rparr>"
    by (simp add: app_main_def)
next
  assume "\<not> truthy (tryGetContext ctx ''githubRepo'')"
  then show "thrown (app_main h ctx penv) \<noteq> None"
    by (simp add: app_main_def split: option.splits)
next
  assume "\<not> truthy (tryGetContext ctx ''githubRepo'')"
  then show "app_stacks (app_main h ctx penv) = []"
    by (simp add: app_main_def split: option.splits)
next
  assume "h NewApp = None \<and> ctx ''githubRepo'' = None"
  then show "app_main h ctx penv
        = \<lparr>thrown = Some (MissingContext missing_context_message), app_stacks = []\<rparr>"
    by (simp add: app_main_def tryGetContext_def)
next
  assume "h NewApp = None \<and> \<not> truthy (tryGetContext ctx ''githubRepo'')"
  then show "app_main h ctx penv
        = \<lparr>thrown = Some (MissingContext missing_context_message), app_stacks = []\<rparr>"
    by (simp add: app_main_def)
next
  assume "h NewApp = None \<and> truthy (tryGetContext ctx ''githubRepo'')
        \<and> first_throw h constructor_steps = Some (st, e)"
  then show "app_main h ctx penv = \<lparr>thrown = Some (Threw st e), app_stacks = []\<rparr>"
    by (simp add: app_main_def ChatAgentStack_def)
next
  assume a: "h NewApp = None \<and> truthy (tryGetContext ctx ''githubRepo'')
        \<and> first_throw h constructor_steps = None"
  then show "thrown (app_main h ctx penv) = None"
    by (simp add: app_main_def ChatAgentStack_def)
next
  assume a: "h NewApp = None \<and> truthy (tryGetContext ctx ''githubRepo'')
        \<and> first_throw h constructor_steps = None"
  then show "map stack_id (app_stacks (app_main h ctx penv)) = [''BedrockChatAgentStack'']"
    by (simp add: app_main_def ChatAgentStack_def sync_env_constructs)
next
  assume a: "h NewApp = None \<and> truthy (tryGetContext ctx ''githubRepo'')
        \<and> first_throw h constructor_steps = None"
  then show "map (\<lambda>s. fn_env s ''SyncFunction'' ''GITHUB_REPO'')
          (app_stacks (app_main h ctx penv))
          = [Some (Value (tryGetContext ctx ''githubRepo''))]"
    by (simp add: app_main_def ChatAgentStack_def sync_env_constructs)
next
  assume a: "h NewApp = None \<and> truthy (tryGetContext ctx ''githubRepo'')
        \<and> first_throw h constructor_steps = None"
  then show "map (\<lambda>s. fn_env s ''SyncFunction'' ''GITHUB_BRANCH'')
          (app_stacks (app_main h ctx penv))
          = [Some (Value (nullish (tryGetContext ctx ''githubBranch'') (JStr ''main'')))]"
    by (simp add: app_main_def ChatAgentStack_def sync_env_constructs nullish_twice)
next
  assume "h NewApp = None \<and> truthy (tryGetContext ctx ''githubRepo'')
        \<and> first_throw h constructor_steps = None \<and> ctx ''githubBranch'' = None"
  then show "map (\<lambda>s. fn_env s ''SyncFunction'' ''GITHUB_BRANCH'')
          (app_stacks (app_main h ctx penv))
          = [Some (Value (JStr ''main''))]"
    by (simp add: app_main_def ChatAgentStack_def sync_env_constructs tryGetContext_def)
qed

theorem app_githubRepo_guard_witness:
  "app_main app_throws Map.empty Map.empty
     = \<lparr>thrown = Some (Threw NewApp ''Unexpected token in JSON''), app_stacks = []\<rparr>
   \<and> app_main all_return Map.empty Map.empty
       = \<lparr>thrown = Some (MissingContext missing_context_message), app_stacks = []\<rparr>
   \<and> app_main all_return [''githubRepo'' \<mapsto> JNum 0] Map.empty
       = \<lparr>thrown = Some (MissingContext missing_context_message), app_stacks = []\<rparr>
   \<and> app_main sync_function_throws [''githubRepo'' \<mapsto> JStr ''awesome-org/data-repo''] Map.empty
       = \<lparr>thrown = Some (Threw NewSyncFunction ''Cannot find asset at lambda/sync''),
          app_stacks = []\<rparr>
   \<and> thrown (app_main all_return [''githubRepo'' \<mapsto> JStr ''awesome-org/data-repo''] Map.empty)
       = None
   \<and> map stack_id
        (app_stacks (app_main all_return [''githubRepo'' \<mapsto> JStr ''awesome-org/data-repo'']
           Map.empty))
       = [''BedrockChatAgentStack'']
   \<and> map (\<lambda>s. fn_env s ''SyncFunction'' ''GITHUB_REPO'')
        (app_stacks (app_main all_return [''githubRepo'' \<mapsto> JStr ''awesome-org/data-repo'']
           Map.empty))
       = [Some (Value (JStr ''awesome-org/data-repo''))]
   \<and> map (\<lambda>s. fn_env s ''SyncFunction'' ''GITHUB_BRANCH'')
        (app_stacks (app_main all_return [''githubRepo'' \<mapsto> JStr ''awesome-org/data-repo'']
           Map.empty))
       = [Some (Value (JStr ''main''))]
   \<and> map (\<lambda>s. fn_env s ''SyncFunction'' ''GITHUB_BRANCH'')
        (app_stacks (app_main all_return
           [''githubRepo'' \<mapsto> JStr ''awesome-org/data-repo'',
            ''githubBranch'' \<mapsto> JStr ''develop''] Map.empty))
       = [Some (Value (JStr ''develop''))]"
proof -
  have throws_at: "first_throw sync_function_throws constructor_steps
      = Some (NewSyncFunction, ''Cannot find asset at lambda/sync'')"
    by (simp add: constructor_steps_def sync_function_throws_def)
  have returns: "first_throw all_return constructor_steps = None"
    by (simp add: constructor_steps_def all_return_def)
  show ?thesis
    using throws_at returns
      app_githubRepo_guard [where h = app_throws and ?e0.0 = "''Unexpected token in JSON''"
        and ctx = Map.empty and penv = Map.empty and st = Super and e = "''''"]
      app_githubRepo_guard [where h = all_return and ?e0.0 = "''''"
        and ctx = Map.empty and penv = Map.empty and st = Super and e = "''''"]
      app_githubRepo_guard [where h = all_return and ?e0.0 = "''''"
        and ctx = "[''githubRepo'' \<mapsto> JNum 0]" and penv = Map.empty
        and st = Super and e = "''''"]
      app_githubRepo_guard [where h = sync_function_throws and ?e0.0 = "''''"
        and ctx = "[''githubRepo'' \<mapsto> JStr ''awesome-org/data-repo'']" and penv = Map.empty
        and st = NewSyncFunction and e = "''Cannot find asset at lambda/sync''"]
      app_githubRepo_guard [where h = all_return and ?e0.0 = "''''"
        and ctx = "[''githubRepo'' \<mapsto> JStr ''awesome-org/data-repo'']" and penv = Map.empty
        and st = Super and e = "''''"]
      app_githubRepo_guard [where h = all_return and ?e0.0 = "''''"
        and ctx = "[''githubRepo'' \<mapsto> JStr ''awesome-org/data-repo'',
                    ''githubBranch'' \<mapsto> JStr ''develop'']" and penv = Map.empty
        and st = Super and e = "''''"]
    by (simp add: tryGetContext_def app_throws_def all_return_def sync_function_throws_def)
qed


section \<open>Properties of the Tool Dispatcher\<close>

text \<open>
  C8. On the schema of the synthesized stack, a call naming one of the five tools either
  fails with InvalidArgument, and then maps to no operation, or maps to exactly one
  operation, the one of its name: query_data needs a string sql, describe_table a string
  table_name, read_repo_file a string file_path; list_tables needs nothing;
  list_repo_files takes an optional path_prefix, which must be a string when it is given.
\<close>

theorem dispatch_validates_required_arguments:
  "(tool_name c = ''query_data'' \<longrightarrow>
      dispatch (ChatAgentStack_constructs sid props) c =
        (case map_of (arguments c) ''sql'' of
           Some (JStr q) \<Rightarrow> Inr (QueryData q) | _ \<Rightarrow> Inl InvalidArgument))
   \<and> (tool_name c = ''list_tables'' \<longrightarrow> dispatch (ChatAgentStack_constructs sid props) c = Inr ListTables)
   \<and> (tool_name c = ''describe_table'' \<longrightarrow>
      dispatch (ChatAgentStack_constructs sid props) c =
        (case map_of (arguments c) ''table_name'' of
           Some (JStr t) \<Rightarrow> Inr (DescribeTable t) | _ \<Rightarrow> Inl InvalidArgument))
   \<and> (tool_name c = ''list_repo_files'' \<longrightarrow>
      dispatch (ChatAgentStack_constructs sid props) c =
        (case map_of (arguments c) ''path_prefix'' of
           None \<Rightarrow> Inr (ListRepoFiles None)
         | Some (JStr p) \<Rightarrow> Inr (ListRepoFiles (Some p))
         | Some _ \<Rightarrow> Inl InvalidArgument))
   \<and> (tool_name c = ''read_repo_file'' \<longrightarrow>
      dispatch (ChatAgentStack_constructs sid props) c =
        (case map_of (arguments c) ''file_path'' of
           Some (JStr p) \<Rightarrow> Inr (ReadRepoFile p) | _ \<Rightarrow> Inl InvalidArgument))"
proof (intro conjI impI)
  assume "tool_name c = ''query_data''"
  then show "dispatch (ChatAgentStack_constructs sid props) c =
        (case map_of (arguments c) ''sql'' of
           Some (JStr q) \<Rightarrow> Inr (QueryData q) | _ \<Rightarrow> Inl InvalidArgument)"
    by (simp add: dispatch_def tool_schema_constructs DataTools_functions_def
        valid_param_def operation_of_def string_arg_def split: option.splits jsval.splits)
next
  assume "tool_name c = ''list_tables''"
  then show "dispatch (ChatAgentStack_constructs sid props) c = Inr ListTables"
    by (simp add: dispatch_def tool_schema_constructs DataTools_functions_def
        operation_of_def)
next
  assume "tool_name c = ''describe_table''"
  then show "dispatch (ChatAgentStack_constructs sid props) c =
        (case map_of (arguments c) ''table_name'' of
           Some (JStr t) \<Rightarrow> Inr (DescribeTable t) | _ \<Rightarrow> Inl InvalidArgument)"
    by (simp add: dispatch_def tool_schema_constructs DataTools_functions_def
        valid_param_def operation_of_def string_arg_def split: option.splits jsval.splits)
next
  assume "tool_name c = ''list_repo_files''"
  then show "dispatch (ChatAgentStack_constructs sid props) c =
        (case map_of (arguments c) ''path_prefix'' of
           None \<Rightarrow> Inr (ListRepoFiles None)
         | Some (JStr p) \<Rightarrow> Inr (ListRepoFiles (Some p))
         | Some _ \<Rightarrow> Inl InvalidArgument)"
    by (simp add: dispatch_def tool_schema_constructs DataTools_functions_def
        valid_param_def operation_of_def string_arg_def split: option.splits jsval.splits)
next
  assume "tool_name c = ''read_repo_file''"
  then show "dispatch (ChatAgentStack_constructs sid props) c =
        (case map_of (arguments c) ''file_path'' of
           Some (JStr p) \<Rightarrow> Inr (ReadRepoFile p) | _ \<Rightarrow> Inl InvalidArgument)"
    by (simp add: dispatch_def tool_schema_constructs DataTools_functions_def
        valid_param_def operation_of_def string_arg_def split: option.splits jsval.splits)
qed

theorem dispatch_validates_required_arguments_witness:
  "dispatch (ChatAgentStack_constructs ''S'' \<lparr>env_account = JUndefined, env_region = JUndefined,
        githubRepo = JStr ''o/r'', githubBranch = JUndefined\<rparr>)
      \<lparr>tool_name = ''query_data'', arguments = [(''sql'', JStr ''SELECT 1'')]\<rparr>
     = Inr (QueryData ''SELECT 1'')
   \<and> dispatch (ChatAgentStack_constructs ''S'' \<lparr>env_account = JUndefined, env_region = JUndefined,
        githubRepo = JStr ''o/r'', githubBranch = JUndefined\<rparr>)
      \<lparr>tool_name = ''query_data'', arguments = []\<rparr>
     = Inl InvalidArgument
   \<and> dispatch (ChatAgentStack_constructs ''S'' \<lparr>env_account = JUndefined, env_region = JUndefined,
        githubRepo = JStr ''o/r'', githubBranch = JUndefined\<rparr>)
      \<lparr>tool_name = ''list_tables'', arguments = []\<rparr>
     = Inr ListTables
   \<and> dispatch (ChatAgentStack_constructs ''S'' \<lparr>env_account = JUndefined, env_region = JUndefined,
        githubRepo = JStr ''o/r'', githubBranch = JUndefined\<rparr>)
      \<lparr>tool_name = ''describe_table'', arguments = [(''table_name'', JNum 3)]\<rparr>
     = Inl InvalidArgument
   \<and> dispatch (ChatAgentStack_constructs ''S'' \<lparr>env_account = JUndefined, env_region = JUndefined,
        githubRepo = JStr ''o/r'', githubBranch = JUndefined\<rparr>)
      \<lparr>tool_name = ''list_repo_files'', arguments = []\<rparr>
     = Inr (ListRepoFiles None)
   \<and> dispatch (ChatAgentStack_constructs ''S'' \<lparr>env_account = JUndefined, env_region = JUndefined,
        githubRepo = JStr ''o/r'', githubBranch = JUndefined\<rparr>)
      \<lparr>tool_name = ''read_repo_file'', arguments = [(''file_path'', JStr ''README.md'')]\<rparr>
     = Inr (ReadRepoFile ''README.md'')"
  using
    dispatch_validates_required_arguments [of
      "\<lparr>tool_name = ''query_data'', arguments = [(''sql'', JStr ''SELECT 1'')]\<rparr>" "''S''"
      "\<lparr>env_account = JUndefined, env_region = JUndefined,
        githubRepo = JStr ''o/r'', githubBranch = JUndefined\<rparr>"]
    dispatch_validates_required_arguments [of
      "\<lparr>tool_name = ''query_data'', arguments = []\<rparr>" "''S''"
      "\<lparr>env_account = JUndefined, env_region = JUndefined,
        githubRepo = JStr ''o/r'', githubBranch = JUndefined\<rparr>"]
    dispatch_validates_required_arguments [of
      "\<lparr>tool_name = ''list_tables'', arguments = []\<rparr>" "''S''"
      "\<lparr>env_account = JUndefined, env_region = JUndefined,
        githubRepo = JStr ''o/r'', githubBranch = JUndefined\<rparr>"]
    dispatch_validates_required_arguments [of
      "\<lparr>tool_name = ''describe_table'', arguments = [(''table_name'', JNum 3)]\<rparr>" "''S''"
      "\<lparr>env_account = JUndefined, env_region = JUndefined,
        githubRepo = JStr ''o/r'', githubBranch = JUndefined\<rparr>"]
    dispatch_validates_required_arguments [of
      "\<lparr>tool_name = ''list_repo_files'', arguments = []\<rparr>" "''S''"
      "\<lparr>env_account = JUndefined, env_region = JUndefined,
        githubRepo = JStr ''o/r'', githubBranch = JUndefined\<rparr>"]
    dispatch_validates_required_arguments [of
      "\<lparr>tool_name = ''read_repo_file'', arguments = [(''file_path'', JStr ''README.md'')]\<rparr>" "''S''"
      "\<lparr>env_account = JUndefined, env_region = JUndefined,
        githubRepo = JStr ''o/r'', githubBranch = JUndefined\<rparr>"]
  by simp

end
